theory Spec2Isabelle
  imports Main
begin

section \<open>Strings\<close>

text \<open>
  A Python \<open>str\<close> is modelled as a \<^typ>\<open>string\<close> holding the UTF-8 bytes of the text.
  The source's literals use two characters outside ASCII: the en dash (U+2013) in the
  dosages and citations, and the non-breaking hyphen (U+2011) in some names and reasons.
\<close>

definition en_dash :: string where
  "en_dash = [CHR 0xE2, CHR 0x80, CHR 0x93]"

definition nb_hyphen :: string where
  "nb_hyphen = [CHR 0xE2, CHR 0x80, CHR 0x91]"

text \<open>
  \<open>str.lower()\<close>: the letters \<open>A\<close> to \<open>Z\<close> go to \<open>a\<close> to \<open>z\<close>. Bytes outside
  ASCII are kept as they are: the case table of the interpreter for the rest of Unicode
  is not part of the program, and the engine only compares the result with five ASCII
  keys.
\<close>

definition lower_char :: "char \<Rightarrow> char" where
  "lower_char c =
     (case map_of (zip ''ABCDEFGHIJKLMNOPQRSTUVWXYZ'' ''abcdefghijklmnopqrstuvwxyz'') c of
        Some l \<Rightarrow> l
      | None \<Rightarrow> c)"

definition str_lower :: "string \<Rightarrow> string" where
  "str_lower s = map lower_char s"

section \<open>Data model\<close>

text \<open>
  \<open>SurveyResponse\<close>: nine integer ratings, a country and an optional email address.
  The field constraints \<open>Field(ge=1, le=5)\<close> are checked by the framework before the
  engine runs; \<open>valid_survey\<close> is that check.
\<close>

record SurveyResponse =
  energy :: int
  gut_health :: int
  muscle_gain :: int
  stress :: int
  sleep :: int
  allergies :: int
  autoimmune :: int
  skin :: int
  digestion :: int
  country :: string
  email :: "string option"

definition rating_ok :: "int \<Rightarrow> bool" where
  "rating_ok n = (1 \<le> n \<and> n \<le> 5)"

definition valid_survey :: "SurveyResponse \<Rightarrow> bool" where
  "valid_survey d =
     (rating_ok (energy d) \<and> rating_ok (gut_health d) \<and> rating_ok (muscle_gain d) \<and>
      rating_ok (stress d) \<and> rating_ok (sleep d) \<and> rating_ok (allergies d) \<and>
      rating_ok (autoimmune d) \<and> rating_ok (skin d) \<and> rating_ok (digestion d))"

record Recommendation =
  name :: string
  reason :: string
  dosage :: "string option"
  sources :: "string list"

record EmailPayload =
  payload_email :: string
  recommendations :: "Recommendation list"

section \<open>Dictionaries\<close>

text \<open>
  A Python \<open>dict\<close> keeps its keys in insertion order, so it is an association list
  with distinct keys. \<open>d[k]\<close> raises \<open>KeyError\<close> on a missing key, \<open>d.get(k)\<close>
  returns \<open>None\<close>, and \<open>d[k] = v\<close> replaces the value of a present key where it
  stands and appends a new key at the end.
\<close>

datatype error = KeyError string

definition dict_getitem :: "(string \<times> 'v) list \<Rightarrow> string \<Rightarrow> error + 'v" where
  "dict_getitem tbl k = (case map_of tbl k of None \<Rightarrow> Inl (KeyError k) | Some v \<Rightarrow> Inr v)"

definition dict_get :: "('k \<times> 'v) list \<Rightarrow> 'k \<Rightarrow> 'v option" where
  "dict_get tbl k = map_of tbl k"

fun dict_setitem :: "('k \<times> 'v) list \<Rightarrow> 'k \<Rightarrow> 'v \<Rightarrow> ('k \<times> 'v) list" where
  "dict_setitem [] k v = [(k, v)]"
| "dict_setitem ((k', v') # kvs) k v =
     (if k' = k then (k', v) # kvs else (k', v') # dict_setitem kvs k v)"

definition dict_values :: "('k \<times> 'v) list \<Rightarrow> 'v list" where
  "dict_values tbl = map snd tbl"

section \<open>Static tables\<close>

definition CITATIONS :: "(string \<times> string list) list" where
  "CITATIONS =
    [(''vitamin_d'',
        [''Harvard T.H. Chan School of Public Health '' @ en_dash @ '' Vitamin D and Health'',
         ''University of Cambridge '' @ en_dash @ '' Vitamin D and immune modulation'']),
     (''creatine'',
        [''University of Nottingham '' @ en_dash @ '' Creatine and muscle performance'',
         ''Australian Institute of Sport '' @ en_dash @ '' Creatine evidence'']),
     (''probiotic'',
        [''Johns Hopkins '' @ en_dash @ '' Gut microbiome and probiotics'',
         ''Stanford Medicine '' @ en_dash @ '' Probiotics in GI health'']),
     (''magnesium'',
        [''NIH ODS '' @ en_dash @ '' Magnesium and sleep quality'',
         ''UC Berkeley '' @ en_dash @ '' Stress and magnesium relationship'']),
     (''omega_3'',
        [''Harvard '' @ en_dash @ '' Omega-3 and cardiovascular/skin benefits'']),
     (''quercetin'',
        [''NC State University '' @ en_dash @ '' Quercetin and allergies'']),
     (''zinc'',
        [''University of Florida '' @ en_dash @ '' Zinc and skin health'']),
     (''ashwagandha'',
        [''University of Michigan '' @ en_dash @ '' Adaptogens for stress''])]"

definition COUNTRY_DEFICIENCY :: "(string \<times> string) list" where
  "COUNTRY_DEFICIENCY =
    [(''uk'', ''vitamin_d''),
     (''ireland'', ''vitamin_d''),
     (''canada'', ''vitamin_d''),
     (''sweden'', ''vitamin_d''),
     (''norway'', ''vitamin_d'')]"

section \<open>The recommendation engine\<close>

text \<open>
  \<open>recs.append(Recommendation(name=..., reason=..., dosage=..., sources=CITATIONS[key]))\<close>:
  the lookup in the citation table is the one place of the engine that can raise.
\<close>

definition append_rec ::
  "Recommendation list \<Rightarrow> string \<Rightarrow> string \<Rightarrow> string \<Rightarrow> string \<Rightarrow> error + Recommendation list" where
  "append_rec recs nm rs dz key =
     (case dict_getitem CITATIONS key of
        Inl e \<Rightarrow> Inl e
      | Inr srcs \<Rightarrow> Inr (recs @ [\<lparr>name = nm, reason = rs, dosage = Some dz, sources = srcs\<rparr>]))"

text \<open>Sequencing of statements that may raise: the first error ends the run.\<close>

definition and_then :: "error + 'a \<Rightarrow> ('a \<Rightarrow> error + 'b) \<Rightarrow> error + 'b" where
  "and_then m f = (case m of Inl e \<Rightarrow> Inl e | Inr x \<Rightarrow> f x)"

text \<open>
  The de-duplication step:
  \<^verbatim>\<open>unique = {}; for r in recs: unique[r.name] = r; return list(unique.values())\<close>
\<close>

fun unique_loop ::
  "Recommendation list \<Rightarrow> (string \<times> Recommendation) list \<Rightarrow> (string \<times> Recommendation) list" where
  "unique_loop [] unique = unique"
| "unique_loop (r # rs) unique = unique_loop rs (dict_setitem unique (name r) r)"

definition unique_by_name :: "Recommendation list \<Rightarrow> Recommendation list" where
  "unique_by_name recs = dict_values (unique_loop recs [])"

definition build_recommendations :: "SurveyResponse \<Rightarrow> error + Recommendation list" where
  "build_recommendations data =
    and_then (Inr []) (\<lambda>recs.
    and_then
      (if energy data \<ge> 4 then
         append_rec recs ''Magnesium Glycinate''
           ''Supports cellular energy and relaxation; often low in modern diets.''
           (''200'' @ en_dash @ ''400 mg in the evening'')
           ''magnesium''
       else Inr recs) (\<lambda>recs.
    and_then
      (if muscle_gain data \<ge> 3 then
         append_rec recs ''Creatine Monohydrate''
           (''Improves high'' @ nb_hyphen @ ''intensity performance and lean mass in numerous RCTs.'')
           (''3'' @ en_dash @ ''5 g daily'')
           ''creatine''
       else Inr recs) (\<lambda>recs.
    and_then
      (if gut_health data \<ge> 3 \<or> digestion data \<ge> 3 then
         append_rec recs (''Multi'' @ nb_hyphen @ ''strain Probiotic'')
           ''Helps balance gut microbiota and supports digestion.''
           (''10'' @ en_dash @ ''20B CFU daily'')
           ''probiotic''
       else Inr recs) (\<lambda>recs.
    and_then
      (if stress data \<ge> 3 \<or> sleep data \<ge> 3 then
         append_rec recs (''Ashwagandha (KSM'' @ nb_hyphen @ ''66/Sensoril)'')
           ''Adaptogen studied for perceived stress and sleep quality.''
           (''300'' @ en_dash @ ''600 mg daily'')
           ''ashwagandha''
       else Inr recs) (\<lambda>recs.
    and_then
      (if skin data \<ge> 3 \<or> allergies data \<ge> 3 then
         append_rec recs (''Omega'' @ nb_hyphen @ ''3 (EPA/DHA)'')
           (''Anti'' @ nb_hyphen @ ''inflammatory support with benefits for skin barrier and allergies.'')
           (''1'' @ en_dash @ ''2 g combined EPA/DHA daily'')
           ''omega_3''
       else Inr recs) (\<lambda>recs.
    and_then
      (if allergies data \<ge> 4 then
         append_rec recs ''Quercetin''
           (''Bioflavonoid studied for mast'' @ nb_hyphen @ ''cell stabilization and seasonal allergies.'')
           (''500'' @ en_dash @ ''1000 mg daily with food'')
           ''quercetin''
       else Inr recs) (\<lambda>recs.
    and_then
      (if skin data \<ge> 4 then
         append_rec recs ''Zinc Picolinate''
           ''Supports skin integrity and immune function; deficiency correlates with acne.''
           (''15'' @ en_dash @ ''30 mg daily with food'')
           ''zinc''
       else Inr recs) (\<lambda>recs.
    and_then
      (if dict_get COUNTRY_DEFICIENCY (str_lower (country data)) = Some ''vitamin_d'' then
         append_rec recs ''Vitamin D3 (cholecalciferol)''
           ''High latitude regions have limited UVB; D3 supports immunity and mood.''
           (''1000'' @ en_dash @ ''2000 IU daily'')
           ''vitamin_d''
       else Inr recs) (\<lambda>recs.
    Inr (unique_by_name recs))))))))))"

section \<open>The acknowledgement stub\<close>

text \<open>
  \<open>send_email\<close> returns the dict
  \<^verbatim>\<open>{"status": "queued", "email": payload.email, "count": len(payload.recommendations)}\<close>
  and does nothing else.
\<close>

datatype json_value = JStr string | JInt int

definition send_email :: "EmailPayload \<Rightarrow> (string \<times> json_value) list" where
  "send_email payload =
     [(''status'', JStr ''queued''),
      (''email'', JStr (payload_email payload)),
      (''count'', JInt (int (length (recommendations payload))))]"

section \<open>The rule table\<close>

text \<open>
  The rules of the engine as a table, in evaluation order: condition, name, reason,
  dosage and supplement key. The strings are those of the source. A row that fires
  yields the recommendation built from it, with the citations of its key.
\<close>

definition citations_of :: "string \<Rightarrow> string list" where
  "citations_of key = (case dict_get CITATIONS key of Some srcs \<Rightarrow> srcs | None \<Rightarrow> [])"

definition rule_recommendation :: "string \<times> string \<times> string \<times> string \<Rightarrow> Recommendation" where
  "rule_recommendation row =
     (case row of (nm, rs, dz, key) \<Rightarrow>
        \<lparr>name = nm, reason = rs, dosage = Some dz, sources = citations_of key\<rparr>)"

definition rule_table :: "SurveyResponse \<Rightarrow> (bool \<times> string \<times> string \<times> string \<times> string) list" where
  "rule_table d =
    [(energy d \<ge> 4,
        ''Magnesium Glycinate'',
        ''Supports cellular energy and relaxation; often low in modern diets.'',
        ''200'' @ en_dash @ ''400 mg in the evening'',
        ''magnesium''),
     (muscle_gain d \<ge> 3,
        ''Creatine Monohydrate'',
        ''Improves high'' @ nb_hyphen @ ''intensity performance and lean mass in numerous RCTs.'',
        ''3'' @ en_dash @ ''5 g daily'',
        ''creatine''),
     (gut_health d \<ge> 3 \<or> digestion d \<ge> 3,
        ''Multi'' @ nb_hyphen @ ''strain Probiotic'',
        ''Helps balance gut microbiota and supports digestion.'',
        ''10'' @ en_dash @ ''20B CFU daily'',
        ''probiotic''),
     (stress d \<ge> 3 \<or> sleep d \<ge> 3,
        ''Ashwagandha (KSM'' @ nb_hyphen @ ''66/Sensoril)'',
        ''Adaptogen studied for perceived stress and sleep quality.'',
        ''300'' @ en_dash @ ''600 mg daily'',
        ''ashwagandha''),
     (skin d \<ge> 3 \<or> allergies d \<ge> 3,
        ''Omega'' @ nb_hyphen @ ''3 (EPA/DHA)'',
        ''Anti'' @ nb_hyphen @ ''inflammatory support with benefits for skin barrier and allergies.'',
        ''1'' @ en_dash @ ''2 g combined EPA/DHA daily'',
        ''omega_3''),
     (allergies d \<ge> 4,
        ''Quercetin'',
        ''Bioflavonoid studied for mast'' @ nb_hyphen @ ''cell stabilization and seasonal allergies.'',
        ''500'' @ en_dash @ ''1000 mg daily with food'',
        ''quercetin''),
     (skin d \<ge> 4,
        ''Zinc Picolinate'',
        ''Supports skin integrity and immune function; deficiency correlates with acne.'',
        ''15'' @ en_dash @ ''30 mg daily with food'',
        ''zinc''),
     (str_lower (country d) \<in> set [''uk'', ''ireland'', ''canada'', ''sweden'', ''norway''],
        ''Vitamin D3 (cholecalciferol)'',
        ''High latitude regions have limited UVB; D3 supports immunity and mood.'',
        ''1000'' @ en_dash @ ''2000 IU daily'',
        ''vitamin_d'')]"

definition fired_rules :: "SurveyResponse \<Rightarrow> Recommendation list" where
  "fired_rules d = map (\<lambda>row. rule_recommendation (snd row)) (filter fst (rule_table d))"


section \<open>De-duplication as the specification words it\<close>

text \<open>
  The distinct elements of a list in the order of their first occurrence, and the last
  record of a list that carries a given name.
\<close>

fun first_occurrences :: "'a list \<Rightarrow> 'a list" where
  "first_occurrences [] = []"
| "first_occurrences (x # xs) = x # filter (\<lambda>y. y \<noteq> x) (first_occurrences xs)"

definition last_with_name :: "string \<Rightarrow> Recommendation list \<Rightarrow> Recommendation option" where
  "last_with_name n recs = find (\<lambda>r. name r = n) (rev recs)"

section \<open>Reading the result\<close>

text \<open>
  \<open>recommends d nm\<close>: the engine returns a list for \<open>d\<close>, and a recommendation named
  \<open>nm\<close> is in it. \<open>all_ones c\<close> is the survey with every rating 1, country \<open>c\<close> and
  no email address.
\<close>

definition recommends :: "SurveyResponse \<Rightarrow> string \<Rightarrow> bool" where
  "recommends d nm =
     (case build_recommendations d of Inl e \<Rightarrow> False | Inr recs \<Rightarrow> nm \<in> set (map name recs))"

definition all_ones :: "string \<Rightarrow> SurveyResponse" where
  "all_ones c =
     \<lparr>energy = 1, gut_health = 1, muscle_gain = 1, stress = 1, sleep = 1, allergies = 1,
      autoimmune = 1, skin = 1, digestion = 1, country = c, email = None\<rparr>"

section \<open>The engine computes the fired rows of the rule table\<close>

subsection \<open>The eight steps\<close>

lemma dict_getitem_citations:
  "key \<in> fst ` set CITATIONS \<Longrightarrow> dict_getitem CITATIONS key = Inr (citations_of key)"
  by (auto simp: dict_getitem_def citations_of_def dict_get_def split: option.splits dest: weak_map_of_SomeI simp: map_of_eq_None_iff)

lemma and_then_append_rec:
  "key \<in> fst ` set CITATIONS \<Longrightarrow>
   and_then (if c then append_rec recs nm rs dz key else Inr recs) f =
   f (recs @ (if c then [rule_recommendation (nm, rs, dz, key)] else []))"
  by (simp add: and_then_def append_rec_def dict_getitem_citations rule_recommendation_def)

lemma citation_keys:
  "fst ` set CITATIONS =
   {''vitamin_d'', ''creatine'', ''probiotic'', ''magnesium'', ''omega_3'', ''quercetin'', ''zinc'', ''ashwagandha''}"
  by (simp add: CITATIONS_def)

lemma country_deficiency_vitamin_d:
  "(dict_get COUNTRY_DEFICIENCY c = Some ''vitamin_d'') =
   (c \<in> set [''uk'', ''ireland'', ''canada'', ''sweden'', ''norway''])"
  by (simp add: dict_get_def COUNTRY_DEFICIENCY_def)

lemma and_then_Inr: "and_then (Inr x) f = f x"
  by (simp add: and_then_def)



lemma filter_fst_Cons: "filter fst ((c, x) # xs) = (if c then [(c, x)] else []) @ filter fst xs"
  by simp

lemma map_if_single: "map f (if c then [x] else []) = (if c then [f x] else [])"
  by simp

lemma build_recommendations_candidates:
  "build_recommendations d = Inr (unique_by_name (fired_rules d))"
  apply (simp only: fired_rules_def rule_table_def filter_fst_Cons map_append map_if_single
      snd_conv filter.simps(1) list.map(1) append_Nil2)
  apply (simp add: build_recommendations_def and_then_Inr and_then_append_rec citation_keys
      country_deficiency_vitamin_d split del: if_split cong: if_cong)
  done

subsection \<open>The dictionary and the de-duplication loop\<close>

lemma keys_dict_setitem:
  "map fst (dict_setitem u k v) = (if k \<in> set (map fst u) then map fst u else map fst u @ [k])"
  by (induction u) (force simp: image_iff)+

lemma map_of_dict_setitem: "map_of (dict_setitem u k v) = (map_of u)(k \<mapsto> v)"
  by (induction u) (auto simp: fun_eq_iff)

lemma distinct_first_occurrences: "distinct (first_occurrences xs)"
  by (induction xs) auto

lemma set_first_occurrences: "set (first_occurrences xs) = set xs"
  by (induction xs) auto

lemma keys_unique_loop:
  "map fst (unique_loop recs u) =
   map fst u @ filter (\<lambda>n. n \<notin> set (map fst u)) (first_occurrences (map name recs))"
proof (induction recs arbitrary: u)
  case Nil
  show ?case by simp
next
  case (Cons r rs)
  show ?case
  proof (cases "name r \<in> set (map fst u)")
    case True
    then have "filter (\<lambda>n. n \<notin> set (map fst u)) (filter (\<lambda>y. y \<noteq> name r) (first_occurrences (map name rs)))
             = filter (\<lambda>n. n \<notin> set (map fst u)) (first_occurrences (map name rs))"
      by (auto simp: intro!: filter_cong)
    with True show ?thesis
      by (simp add: Cons.IH keys_dict_setitem)
  next
    case False
    have "filter (\<lambda>n. n \<notin> set (map fst u @ [name r])) (first_occurrences (map name rs))
        = filter (\<lambda>n. n \<notin> set (map fst u)) (filter (\<lambda>y. y \<noteq> name r) (first_occurrences (map name rs)))"
      by (auto simp: intro!: filter_cong)
    with False show ?thesis
      by (simp add: Cons.IH keys_dict_setitem)
  qed
qed

lemma find_snoc:
  "find P (xs @ [x]) = (case find P xs of Some y \<Rightarrow> Some y | None \<Rightarrow> if P x then Some x else None)"
  by (induction xs) auto

lemma map_of_unique_loop:
  "map_of (unique_loop recs u) n =
   (case last_with_name n recs of Some r \<Rightarrow> Some r | None \<Rightarrow> map_of u n)"
proof (induction recs arbitrary: u)
  case Nil
  show ?case by (simp add: last_with_name_def)
next
  case (Cons r rs)
  show ?case
    by (simp add: Cons.IH map_of_dict_setitem last_with_name_def find_snoc split: option.splits)
qed

lemma map_of_keys:
  "distinct (map fst u) \<Longrightarrow> map (map_of u) (map fst u) = map (\<lambda>kv. Some (snd kv)) u"
  by (induction u) (auto simp: rev_image_eqI)

lemma keys_unique_by_name:
  "map fst (unique_loop recs []) = first_occurrences (map name recs)"
  by (simp add: keys_unique_loop)

lemma values_unique_by_name:
  "map Some (unique_by_name recs) =
   map (\<lambda>n. last_with_name n recs) (first_occurrences (map name recs))"
proof -
  let ?u = "unique_loop recs []"
  have d: "distinct (map fst ?u)"
    by (simp add: keys_unique_by_name distinct_first_occurrences)
  have "map Some (unique_by_name recs) = map (\<lambda>kv. Some (snd kv)) ?u"
    by (simp add: unique_by_name_def dict_values_def)
  also have "\<dots> = map (map_of ?u) (map fst ?u)"
    using map_of_keys [OF d] by simp
  also have "\<dots> = map (\<lambda>n. last_with_name n recs) (first_occurrences (map name recs))"
    by (simp add: keys_unique_by_name map_of_unique_loop split: option.splits)
  finally show ?thesis .
qed


lemma find_Some_mem: "find P xs = Some x \<Longrightarrow> x \<in> set xs \<and> P x"
  by (induction xs) (auto split: if_splits)

lemma last_with_name_mem: "last_with_name n recs = Some r \<Longrightarrow> r \<in> set recs \<and> name r = n"
  using find_Some_mem [of "\<lambda>r. name r = n" "rev recs" r] by (simp add: last_with_name_def)

lemma last_with_name_Some:
  "n \<in> name ` set recs \<Longrightarrow> \<exists>r. last_with_name n recs = Some r \<and> name r = n"
  by (cases "last_with_name n recs") (auto simp: last_with_name_def find_None_iff dest: find_Some_mem)

lemma names_unique_by_name:
  "map name (unique_by_name recs) = first_occurrences (map name recs)"
proof -
  have "map (map_option name) (map Some (unique_by_name recs)) =
        map (map_option name) (map (\<lambda>n. last_with_name n recs) (first_occurrences (map name recs)))"
    by (simp only: values_unique_by_name)
  also have "\<dots> = map Some (first_occurrences (map name recs))"
    using last_with_name_Some [of _ recs] by (auto simp: set_first_occurrences)
  finally have "map Some (map name (unique_by_name recs)) = map Some (first_occurrences (map name recs))"
    by (simp add: comp_def)
  then show ?thesis
    by (simp only: inj_map_eq_map [OF inj_Some])
qed

lemma distinct_names_unique_by_name: "distinct (map name (unique_by_name recs))"
  by (simp add: names_unique_by_name distinct_first_occurrences)

lemma first_occurrences_distinct: "distinct xs \<Longrightarrow> first_occurrences xs = xs"
  by (induction xs) (auto simp: set_first_occurrences intro: filter_True)

lemma last_with_name_distinct:
  assumes "distinct (map name recs)" and "r \<in> set recs"
  shows "last_with_name (name r) recs = Some r"
proof -
  from assms(2) obtain r' where r': "last_with_name (name r) recs = Some r'" "name r' = name r"
    using last_with_name_Some [of "name r" recs] by auto
  then have "r' \<in> set recs"
    by (simp add: last_with_name_mem)
  with assms r'(2) have "r' = r"
    by (meson distinct_map inj_onD)
  with r'(1) show ?thesis by simp
qed

lemma unique_by_name_distinct:
  assumes "distinct (map name recs)"
  shows "unique_by_name recs = recs"
proof -
  have "map Some (unique_by_name recs) = map (\<lambda>n. last_with_name n recs) (map name recs)"
    by (simp add: values_unique_by_name first_occurrences_distinct [OF assms])
  also have "\<dots> = map Some recs"
    using last_with_name_distinct [OF assms] by simp
  finally show ?thesis
    by (simp only: inj_map_eq_map [OF inj_Some])
qed

subsection \<open>The fired rows\<close>

lemma name_rule_recommendation: "name (rule_recommendation (nm, rs, dz, key)) = nm"
  by (simp add: rule_recommendation_def)

lemma distinct_rule_names:
  "distinct (map (\<lambda>row. name (rule_recommendation (snd row))) (rule_table d))"
  by (simp add: rule_table_def name_rule_recommendation en_dash_def nb_hyphen_def)

lemma distinct_fired_names: "distinct (map name (fired_rules d))"
  using distinct_map_filter [OF distinct_rule_names, of fst d]
  by (simp add: fired_rules_def comp_def)

lemma build_recommendations_fired: "build_recommendations d = Inr (fired_rules d)"
  by (simp add: build_recommendations_candidates unique_by_name_distinct distinct_fired_names)

lemma fired_name_iff:
  "nm \<in> name ` set (fired_rules d) \<longleftrightarrow> (\<exists>row \<in> set (rule_table d). fst row \<and> fst (snd row) = nm)"
  by (force simp: fired_rules_def rule_recommendation_def split: prod.splits)

lemma recommends_iff:
  "recommends d nm \<longleftrightarrow> (\<exists>row \<in> set (rule_table d). fst row \<and> fst (snd row) = nm)"
  by (simp add: recommends_def build_recommendations_fired fired_name_iff)

lemma recommends_rules:
  "recommends d ''Magnesium Glycinate'' \<longleftrightarrow> energy d \<ge> 4"
  "recommends d ''Creatine Monohydrate'' \<longleftrightarrow> muscle_gain d \<ge> 3"
  "recommends d (''Multi'' @ nb_hyphen @ ''strain Probiotic'') \<longleftrightarrow> gut_health d \<ge> 3 \<or> digestion d \<ge> 3"
  "recommends d (''Ashwagandha (KSM'' @ nb_hyphen @ ''66/Sensoril)'') \<longleftrightarrow> stress d \<ge> 3 \<or> sleep d \<ge> 3"
  "recommends d (''Omega'' @ nb_hyphen @ ''3 (EPA/DHA)'') \<longleftrightarrow> skin d \<ge> 3 \<or> allergies d \<ge> 3"
  "recommends d ''Quercetin'' \<longleftrightarrow> allergies d \<ge> 4"
  "recommends d ''Zinc Picolinate'' \<longleftrightarrow> skin d \<ge> 4"
  "recommends d ''Vitamin D3 (cholecalciferol)'' \<longleftrightarrow>
     str_lower (country d) \<in> set [''uk'', ''ireland'', ''canada'', ''sweden'', ''norway'']"
  by (simp_all add: recommends_iff rule_table_def en_dash_def nb_hyphen_def)

lemma valid_all_ones: "valid_survey (all_ones c)"
  by (simp add: valid_survey_def rating_ok_def all_ones_def)

section \<open>The rules of the engine\<close>




section \<open>Distinct names\<close>

text \<open>
  C2. For every validated survey the engine returns a list, and the names of its
  recommendations are pairwise distinct. The proof rests on the de-duplication step alone
  (\<open>distinct_names_unique_by_name\<close>), not on the names of the present rules.
\<close>

theorem build_recommendations_names_distinct:
  assumes "valid_survey d"
  shows "\<exists>recs. build_recommendations d = Inr recs \<and> distinct (map name recs)"
  by (simp add: build_recommendations_candidates distinct_names_unique_by_name)

theorem build_recommendations_names_distinct_witness:
  "valid_survey ((all_ones ''uk'')\<lparr>skin := 5, allergies := 5\<rparr>)
   \<and> (\<exists>recs. build_recommendations ((all_ones ''uk'')\<lparr>skin := 5, allergies := 5\<rparr>) = Inr recs
         \<and> distinct (map name recs))"
proof -
  have v: "valid_survey ((all_ones ''uk'')\<lparr>skin := 5, allergies := 5\<rparr>)"
    by (simp add: valid_survey_def rating_ok_def all_ones_def)
  show ?thesis
    using v build_recommendations_names_distinct [OF v] by simp
qed

section \<open>The de-duplication step\<close>

text \<open>
  C3. For any list of recommendations in evaluation order, the de-duplication step returns
  one record per distinct name; the names stand in the order of their first occurrence,
  and the record kept for a name is the last record of the input with that name.
\<close>

theorem unique_by_name_first_position_last_value:
  "map name (unique_by_name recs) = first_occurrences (map name recs)
   \<and> map Some (unique_by_name recs) =
       map (\<lambda>n. last_with_name n recs) (first_occurrences (map name recs))"
  by (simp only: names_unique_by_name values_unique_by_name simp_thms)

section \<open>The country rule\<close>



section \<open>A worked input\<close>

text \<open>
  C5. For skin 5, allergies 5, every other rating 1 and country "France" (any email), the
  engine returns exactly three recommendations: Omega-3, Quercetin and Zinc Picolinate,
  in this order.
\<close>

theorem skin_allergies_five_france:
  "build_recommendations
     \<lparr>energy = 1, gut_health = 1, muscle_gain = 1, stress = 1, sleep = 1, allergies = 5,
      autoimmune = 1, skin = 5, digestion = 1, country = ''France'', email = e\<rparr> =
   Inr [\<lparr>name = ''Omega'' @ nb_hyphen @ ''3 (EPA/DHA)'',
         reason = ''Anti'' @ nb_hyphen @ ''inflammatory support with benefits for skin barrier and allergies.'',
         dosage = Some (''1'' @ en_dash @ ''2 g combined EPA/DHA daily''),
         sources = [''Harvard '' @ en_dash @ '' Omega-3 and cardiovascular/skin benefits'']\<rparr>,
        \<lparr>name = ''Quercetin'',
         reason = ''Bioflavonoid studied for mast'' @ nb_hyphen @ ''cell stabilization and seasonal allergies.'',
         dosage = Some (''500'' @ en_dash @ ''1000 mg daily with food''),
         sources = [''NC State University '' @ en_dash @ '' Quercetin and allergies'']\<rparr>,
        \<lparr>name = ''Zinc Picolinate'',
         reason = ''Supports skin integrity and immune function; deficiency correlates with acne.'',
         dosage = Some (''15'' @ en_dash @ ''30 mg daily with food''),
         sources = [''University of Florida '' @ en_dash @ '' Zinc and skin health'']\<rparr>]"
  by (simp add: build_recommendations_def and_then_def append_rec_def dict_getitem_def dict_get_def
      CITATIONS_def COUNTRY_DEFICIENCY_def str_lower_def lower_char_def unique_by_name_def
      dict_values_def en_dash_def nb_hyphen_def)

section \<open>Determinism\<close>



section \<open>Totality\<close>

text \<open>
  C7. For every survey whose nine ratings lie in 1..5, whatever the country, the engine
  returns a list: none of its lookups in the citation table raises \<open>KeyError\<close>. Every
  function of the model is total, its loop being structural recursion on the list.
\<close>

theorem build_recommendations_total:
  assumes "valid_survey d"
  shows "\<exists>recs. build_recommendations d = Inr recs"
  by (simp add: build_recommendations_candidates)

theorem build_recommendations_total_witness:
  "valid_survey ((all_ones ''Canada'')\<lparr>energy := 5, muscle_gain := 5\<rparr>)
   \<and> (\<exists>recs. build_recommendations ((all_ones ''Canada'')\<lparr>energy := 5, muscle_gain := 5\<rparr>) = Inr recs)"
proof -
  have v: "valid_survey ((all_ones ''Canada'')\<lparr>energy := 5, muscle_gain := 5\<rparr>)"
    by (simp add: valid_survey_def rating_ok_def all_ones_def)
  show ?thesis
    using v build_recommendations_total [OF v] by simp
qed

section \<open>The response of the stub\<close>

text \<open>
  C8. For every payload the stub returns the record with status "queued", the email of the
  payload, and the number of recommendations of the payload as count; it computes nothing
  else.
\<close>

theorem send_email_queued:
  "send_email payload =
     [(''status'', JStr ''queued''),
      (''email'', JStr (payload_email payload)),
      (''count'', JInt (int (length (recommendations payload))))]
   \<and> dict_get (send_email payload) ''status'' = Some (JStr ''queued'')
   \<and> dict_get (send_email payload) ''email'' = Some (JStr (payload_email payload))
   \<and> dict_get (send_email payload) ''count'' = Some (JInt (int (length (recommendations payload))))"
  by (simp add: send_email_def dict_get_def)

section \<open>Unused fields\<close>

text \<open>
  C9. Two validated surveys that agree on energy, gut_health, muscle_gain, stress, sleep,
  allergies, skin, digestion and country give equal results, whatever their autoimmune
  ratings and email addresses.
\<close>

theorem autoimmune_email_noninterference:
  assumes "valid_survey d1" and "valid_survey d2"
    and "energy d1 = energy d2" and "gut_health d1 = gut_health d2"
    and "muscle_gain d1 = muscle_gain d2" and "stress d1 = stress d2"
    and "sleep d1 = sleep d2" and "allergies d1 = allergies d2"
    and "skin d1 = skin d2" and "digestion d1 = digestion d2"
    and "country d1 = country d2"
  shows "build_recommendations d1 = build_recommendations d2"
  using assms(3-) by (simp add: build_recommendations_def)

theorem autoimmune_email_noninterference_witness:
  "valid_survey (all_ones ''Norway'')
   \<and> valid_survey ((all_ones ''Norway'')\<lparr>autoimmune := 5, email := Some ''a@b.example''\<rparr>)
   \<and> (all_ones ''Norway'') \<noteq> (all_ones ''Norway'')\<lparr>autoimmune := 5, email := Some ''a@b.example''\<rparr>
   \<and> build_recommendations (all_ones ''Norway'') =
       build_recommendations ((all_ones ''Norway'')\<lparr>autoimmune := 5, email := Some ''a@b.example''\<rparr>)"
proof -
  have v: "valid_survey (all_ones ''Norway'')"
    by (rule valid_all_ones)
  have w: "valid_survey ((all_ones ''Norway'')\<lparr>autoimmune := 5, email := Some ''a@b.example''\<rparr>)"
    by (simp add: valid_survey_def rating_ok_def all_ones_def)
  show ?thesis
    using v w autoimmune_email_noninterference [OF v w] by (simp add: all_ones_def)
qed

section \<open>Rule subsumption\<close>

text \<open>
  C10. For every validated survey, if the output contains Quercetin or Zinc Picolinate,
  it contains Omega-3 (EPA/DHA) too.
\<close>

theorem quercetin_zinc_imply_omega_3:
  assumes "valid_survey d"
    and "recommends d ''Quercetin'' \<or> recommends d ''Zinc Picolinate''"
  shows "recommends d (''Omega'' @ nb_hyphen @ ''3 (EPA/DHA)'')"
  using assms(2) by (auto simp only: recommends_rules)

theorem quercetin_zinc_imply_omega_3_witness:
  "valid_survey ((all_ones ''France'')\<lparr>allergies := 4\<rparr>)
   \<and> recommends ((all_ones ''France'')\<lparr>allergies := 4\<rparr>) ''Quercetin''
   \<and> recommends ((all_ones ''France'')\<lparr>allergies := 4\<rparr>) (''Omega'' @ nb_hyphen @ ''3 (EPA/DHA)'')"
proof -
  have v: "valid_survey ((all_ones ''France'')\<lparr>allergies := 4\<rparr>)"
    by (simp add: valid_survey_def rating_ok_def all_ones_def)
  have q: "recommends ((all_ones ''France'')\<lparr>allergies := 4\<rparr>) ''Quercetin''"
    by (simp add: recommends_rules all_ones_def)
  show ?thesis
    using v q quercetin_zinc_imply_omega_3 [OF v disjI1 [OF q]] by simp
qed

end
